theory Spec2Isabelle
  imports Main "HOL-Library.Word"
begin

unbundle bit_operations_syntax

section \<open>The process and its platform\<close>

text \<open>
  The program is \<^verbatim>\<open>execvpe.c\<close>: a wrapper \<^verbatim>\<open>execvpe\<close> around the platform's
  \<^verbatim>\<open>execvp\<close>, and a \<^verbatim>\<open>main\<close> that forks, runs the wrapper in the child and waits
  in the parent.

  A C \<^verbatim>\<open>int\<close> (and \<^verbatim>\<open>pid_t\<close>) is a 32-bit word. A pointer to a NULL-terminated
  array of C strings (\<^verbatim>\<open>char **\<close>) is an address; the store maps the address to
  the strings of the array.
\<close>

type_synonym cint = "32 word"
type_synonym addr = nat

record proc =
  environ :: addr                          \<comment> \<open>\<^verbatim>\<open>extern char **environ\<close>\<close>
  errno :: cint                            \<comment> \<open>the error number that \<^verbatim>\<open>perror\<close> reads\<close>
  mem :: "addr \<Rightarrow> string list option"       \<comment> \<open>the arrays of strings, by address\<close>
  brk :: addr                              \<comment> \<open>the next address for a local array\<close>
  stdout :: string                         \<comment> \<open>everything written to standard output\<close>
  stderr :: string                         \<comment> \<open>everything written to standard error\<close>

text \<open>
  What the code calls but does not define comes from the platform: the system
  calls \<^verbatim>\<open>execvp\<close>, \<^verbatim>\<open>fork\<close> and \<^verbatim>\<open>wait\<close>, the text \<^verbatim>\<open>strerror\<close> gives for an error
  number, and the macros of \<^verbatim>\<open><paths.h>\<close> and \<^verbatim>\<open><wait.h>\<close>. They are parameters.
  \<^verbatim>\<open>execvp\<close> gives \<open>None\<close> when it replaces the process image (it never returns
  then), and its result with the state it leaves when it returns. \<^verbatim>\<open>wait\<close> gives its
  result, the status it stores through its argument, and the state it leaves.
\<close>

record platform =
  execvp :: "string \<Rightarrow> addr \<Rightarrow> proc \<Rightarrow> (cint \<times> proc) option"
  fork :: "proc \<Rightarrow> cint \<times> proc"
  wait :: "proc \<Rightarrow> cint \<times> cint \<times> proc"
  strerror :: "cint \<Rightarrow> string"
  PATH_DEFPATH :: string
  WIFEXITED :: "cint \<Rightarrow> bool"
  WEXITSTATUS :: "cint \<Rightarrow> cint"

text \<open>
  The run of a process is observed through a log of the assignments to
  \<^verbatim>\<open>environ\<close> and of the system calls, in the order they happen. The log is not
  part of the process state: the platform cannot read or change it.
  \<open>Call_execvp file argv env\<close> records the call with the value \<^verbatim>\<open>environ\<close> has at
  that moment.
\<close>

datatype event =
    Assign_environ addr
  | Call_execvp string addr addr
  | Call_fork
  | Call_wait

record world =
  ps :: proc
  trace :: "event list"

text \<open>
  A function either returns a value, or never returns because the process image
  was replaced; the log up to that moment is kept.
\<close>

datatype 'a outcome = Replaced "event list" | Returned 'a world

fun trace_of :: "'a outcome \<Rightarrow> event list" where
  "trace_of (Replaced tr) = tr"
| "trace_of (Returned r w) = trace w"

fun returned :: "'a outcome \<Rightarrow> ('a \<times> world) option" where
  "returned (Replaced tr) = None"
| "returned (Returned r w) = Some (r, w)"

fun state_after :: "'a outcome \<Rightarrow> proc option" where
  "state_after (Replaced tr) = None"
| "state_after (Returned r w) = Some (ps w)"

definition log :: "event \<Rightarrow> world \<Rightarrow> world" where
  "log e w = w\<lparr>trace := trace w @ [e]\<rparr>"

definition set_environ :: "addr \<Rightarrow> world \<Rightarrow> world" where
  \<comment> \<open>\<^verbatim>\<open>environ = p;\<close>\<close>
  "set_environ p w = log (Assign_environ p) (w\<lparr>ps := (ps w)\<lparr>environ := p\<rparr>\<rparr>)"

definition call_execvp :: "platform \<Rightarrow> string \<Rightarrow> addr \<Rightarrow> world \<Rightarrow> cint outcome" where
  "call_execvp P file argv w =
     (let w1 = log (Call_execvp file argv (environ (ps w))) w
      in case execvp P file argv (ps w1) of
           None \<Rightarrow> Replaced (trace w1)
         | Some (r, p) \<Rightarrow> Returned r (w1\<lparr>ps := p\<rparr>))"

definition call_fork :: "platform \<Rightarrow> world \<Rightarrow> cint \<times> world" where
  "call_fork P w =
     (let w1 = log Call_fork w; (pid, p) = fork P (ps w1)
      in (pid, w1\<lparr>ps := p\<rparr>))"

definition call_wait :: "platform \<Rightarrow> world \<Rightarrow> cint \<times> cint \<times> world" where
  "call_wait P w =
     (let w1 = log Call_wait w; (r, status, p) = wait P (ps w1)
      in (r, status, w1\<lparr>ps := p\<rparr>))"

subsection \<open>The C library\<close>

definition newline :: string where
  "newline = [CHR 0x0A]"

definition digit_char :: "nat \<Rightarrow> char" where
  "digit_char d = char_of (48 + d)"

function show_nat :: "nat \<Rightarrow> string" where
  "show_nat n =
     (if n < 10 then [digit_char n] else show_nat (n div 10) @ [digit_char (n mod 10)])"
  by pat_completeness auto
termination
  by (relation "measure (\<lambda>n. n)") auto

declare show_nat.simps [simp del]

definition show_int :: "int \<Rightarrow> string" where
  \<comment> \<open>the conversion \<^verbatim>\<open>%d\<close>\<close>
  "show_int i = (if i < 0 then CHR ''-'' # show_nat (nat (- i)) else show_nat (nat i))"

definition printf :: "string \<Rightarrow> world \<Rightarrow> world" where
  \<comment> \<open>the formatted text is appended to standard output\<close>
  "printf s w = w\<lparr>ps := (ps w)\<lparr>stdout := stdout (ps w) @ s\<rparr>\<rparr>"

definition perror_text :: "platform \<Rightarrow> string \<Rightarrow> cint \<Rightarrow> string" where
  "perror_text P s e = s @ '': '' @ strerror P e @ newline"

definition perror :: "platform \<Rightarrow> string \<Rightarrow> world \<Rightarrow> world" where
  \<comment> \<open>\<^verbatim>\<open>perror(s)\<close> with a non-empty \<open>s\<close>: the prefix, a colon, the text of \<^verbatim>\<open>errno\<close>\<close>
  "perror P s w = w\<lparr>ps := (ps w)\<lparr>stderr := stderr (ps w) @ perror_text P s (errno (ps w))\<rparr>\<rparr>"

definition new_array :: "string list \<Rightarrow> world \<Rightarrow> addr \<times> world" where
  \<comment> \<open>a local array \<^verbatim>\<open>char *a[] = {..., NULL}\<close>: a fresh address holding the strings\<close>
  "new_array xs w =
     (let a = brk (ps w)
      in (a, w\<lparr>ps := (ps w)\<lparr>mem := (mem (ps w))(a \<mapsto> xs), brk := Suc a\<rparr>\<rparr>))"

section \<open>The program\<close>

definition execvpe :: "platform \<Rightarrow> string \<Rightarrow> addr \<Rightarrow> addr \<Rightarrow> world \<Rightarrow> cint outcome" where
  "execvpe P file argv envp w =
     (let old_environ = environ (ps w);
          w1 = set_environ envp w
      in case call_execvp P file argv w1 of
           Replaced tr \<Rightarrow> Replaced tr
         | Returned result w2 \<Rightarrow> Returned result (set_environ old_environ w2))"

definition main_locals :: "platform \<Rightarrow> world \<Rightarrow> addr \<times> addr \<times> world" where
  \<comment> \<open>lines 27 to 33: the default path is printed, the two arrays are set up\<close>
  "main_locals P w0 =
     (let path = PATH_DEFPATH P;
          w1 = printf (path @ newline) w0;
          (args, w2) = new_array [''env''] w1;
          (new_envp, w3) = new_array [''PATH=/bin:/usr/bin''] w2
      in (args, new_envp, w3))"

definition main :: "platform \<Rightarrow> world \<Rightarrow> cint outcome" where
  "main P w0 =
     (let (args, new_envp, w3) = main_locals P w0;
          (pid, w4) = call_fork P w3
      in if pid = - 1 then Returned 1 (perror P ''Failed to fork'' w4)
         else if pid = 0 then
           (case execvpe P ''env'' args new_envp w4 of
              Replaced tr \<Rightarrow> Replaced tr
            | Returned r w5 \<Rightarrow> Returned 1 (perror P ''Failed to execute execvpe'' w5))
         else
           (let (wait_result, status, w5) = call_wait P w4
            in if wait_result = - 1
               then Returned 1 (perror P ''Failed to wait for the child process'' w5)
               else if WIFEXITED P status
               then Returned 0 (printf (newline @ ''Child process exited with code ''
                                  @ show_int (sint (WEXITSTATUS P status)) @ newline) w5)
               else Returned 0 (printf (newline @ ''Child process exited with error''
                                  @ newline) w5)))"

section \<open>A sample platform\<close>

text \<open>
  A platform to run the program on: \<^verbatim>\<open>execvp\<close> replaces the image when the name is
  one of \<open>progs\<close>, and otherwise returns -1 with \<^verbatim>\<open>errno\<close> set to \<^verbatim>\<open>ENOENT\<close>;
  \<^verbatim>\<open>fork\<close> returns \<open>pid\<close>; \<^verbatim>\<open>wait\<close> returns \<open>wres\<close> and stores \<open>st\<close>. The macros are
  those of Linux.
\<close>

definition ENOENT :: cint where "ENOENT = 2"
definition ECHILD :: cint where "ECHILD = 10"
definition EAGAIN :: cint where "EAGAIN = 11"

definition sample_platform :: "string list \<Rightarrow> cint \<Rightarrow> cint \<Rightarrow> cint \<Rightarrow> platform" where
  "sample_platform progs pid wres st =
     \<lparr> execvp = (\<lambda>file argv p.
         if file \<in> set progs then None else Some (- 1, p\<lparr>errno := ENOENT\<rparr>)),
       fork = (\<lambda>p. if pid = - 1 then (pid, p\<lparr>errno := EAGAIN\<rparr>) else (pid, p)),
       wait = (\<lambda>p. if wres = - 1 then (wres, st, p\<lparr>errno := ECHILD\<rparr>) else (wres, st, p)),
       strerror = (\<lambda>e. if e = ENOENT then ''No such file or directory''
                        else if e = ECHILD then ''No child processes''
                        else if e = EAGAIN then ''Resource temporarily unavailable''
                        else ''Unknown error''),
       PATH_DEFPATH = ''/usr/bin:/bin'',
       WIFEXITED = (\<lambda>s. s AND 0x7f = 0),
       WEXITSTATUS = (\<lambda>s. drop_bit 8 (s AND 0xff00)) \<rparr>"

definition sample_world :: world where
  "sample_world =
     \<lparr> ps = \<lparr> environ = 1, errno = 0,
              mem = [1 \<mapsto> [''HOME=/root'', ''PATH=/opt/bin''],
                     2 \<mapsto> [''nosuch''],
                     3 \<mapsto> [''PATH=/bin:/usr/bin'']],
              brk = 4, stdout = [], stderr = [] \<rparr>,
       trace = [] \<rparr>"

text \<open>
  The state of \<^verbatim>\<open>main\<close>, started in \<open>sample_world\<close>, when it reaches \<^verbatim>\<open>fork\<close>:
  the default path is printed, and the arrays \<^verbatim>\<open>args\<close> and \<^verbatim>\<open>new_envp\<close> are at the
  addresses 4 and 5.
\<close>

definition sample_world3 :: world where
  "sample_world3 =
     \<lparr> ps = \<lparr> environ = 1, errno = 0,
              mem = [1 \<mapsto> [''HOME=/root'', ''PATH=/opt/bin''],
                     2 \<mapsto> [''nosuch''],
                     3 \<mapsto> [''PATH=/bin:/usr/bin''],
                     4 \<mapsto> [''env''],
                     5 \<mapsto> [''PATH=/bin:/usr/bin'']],
              brk = 6, stdout = ''/usr/bin:/bin'' @ newline, stderr = [] \<rparr>,
       trace = [] \<rparr>"

section \<open>The wrapper \<^verbatim>\<open>execvpe\<close>\<close>

lemma execvpe_returns:
  assumes "execvp P file argv ((ps w)\<lparr>environ := envp\<rparr>) = Some (r, p)"
  shows "execvpe P file argv envp w =
           Returned r \<lparr> ps = p\<lparr>environ := environ (ps w)\<rparr>,
                        trace = trace w @ [Assign_environ envp, Call_execvp file argv envp,
                                           Assign_environ (environ (ps w))] \<rparr>"
  using assms by (simp add: execvpe_def call_execvp_def set_environ_def log_def Let_def)

lemma execvpe_replaced:
  assumes "execvp P file argv ((ps w)\<lparr>environ := envp\<rparr>) = None"
  shows "execvpe P file argv envp w =
           Replaced (trace w @ [Assign_environ envp, Call_execvp file argv envp])"
  using assms by (simp add: execvpe_def call_execvp_def set_environ_def log_def Let_def)

lemma sample_execvp_fails:
  "file \<notin> set progs \<Longrightarrow>
     execvp (sample_platform progs pid wres st) file argv p = Some (- 1, p\<lparr>errno := ENOENT\<rparr>)"
  by (simp add: sample_platform_def)

lemma sample_execvp_succeeds:
  "file \<in> set progs \<Longrightarrow> execvp (sample_platform progs pid wres st) file argv p = None"
  by (simp add: sample_platform_def)

text \<open>
  C1. Whenever the underlying \<^verbatim>\<open>execvp\<close> fails, that is, returns, \<^verbatim>\<open>execvpe\<close> returns
  too, with the result of \<^verbatim>\<open>execvp\<close>, and \<^verbatim>\<open>environ\<close> has afterwards the value it had
  before the call, whatever the platform's \<^verbatim>\<open>execvp\<close> did to the process state.
\<close>

theorem execvpe_failure_restores_environ:
  assumes "execvp P file argv ((ps w)\<lparr>environ := envp\<rparr>) = Some (r, p)"
  shows "\<exists>w'. execvpe P file argv envp w = Returned r w' \<and> environ (ps w') = environ (ps w)"
  using execvpe_returns [OF assms] by simp

theorem execvpe_failure_restores_environ_witness:
  "execvp (sample_platform [''env''] 0 0 0) ''nosuch'' 2 ((ps sample_world)\<lparr>environ := 3\<rparr>)
     = Some (- 1, (ps sample_world)\<lparr>environ := 3, errno := ENOENT\<rparr>)
   \<and> (\<exists>w'. execvpe (sample_platform [''env''] 0 0 0) ''nosuch'' 2 3 sample_world
             = Returned (- 1) w'
          \<and> environ (ps w') = 1)"
proof -
  have h: "execvp (sample_platform [''env''] 0 0 0) ''nosuch'' 2 ((ps sample_world)\<lparr>environ := 3\<rparr>)
             = Some (- 1, (ps sample_world)\<lparr>environ := 3, errno := ENOENT\<rparr>)"
    by (simp add: sample_platform_def)
  have e: "environ (ps sample_world) = 1"
    by (simp add: sample_world_def)
  show ?thesis
    using h execvpe_failure_restores_environ [OF h] e by simp
qed


lemma execvpe_Returned_environ:
  assumes "execvpe P file argv envp w = Returned r w'"
  shows "environ (ps w') = environ (ps w)"
proof (cases "execvp P file argv ((ps w)\<lparr>environ := envp\<rparr>)")
  case None
  from execvpe_replaced [OF None] assms show ?thesis by simp
next
  case (Some a)
  obtain r0 p where "a = (r0, p)" by (cases a)
  with Some have "execvp P file argv ((ps w)\<lparr>environ := envp\<rparr>) = Some (r0, p)" by simp
  from execvpe_returns [OF this] assms show ?thesis by auto
qed

lemma execvpe_Returned_trace:
  assumes "execvpe P file argv envp w = Returned r w'"
  shows "trace w' = trace w @ [Assign_environ envp, Call_execvp file argv envp,
                               Assign_environ (environ (ps w))]"
proof (cases "execvp P file argv ((ps w)\<lparr>environ := envp\<rparr>)")
  case None
  from execvpe_replaced [OF None] assms show ?thesis by simp
next
  case (Some a)
  obtain r0 p where "a = (r0, p)" by (cases a)
  with Some have "execvp P file argv ((ps w)\<lparr>environ := envp\<rparr>) = Some (r0, p)" by simp
  from execvpe_returns [OF this] assms show ?thesis by auto
qed

text \<open>
  C2. Every call of \<^verbatim>\<open>execvpe\<close> takes the same steps. The value of \<^verbatim>\<open>environ\<close> on
  entry is saved; \<open>envp\<close> is installed as the new value of \<^verbatim>\<open>environ\<close>; then the
  platform's \<^verbatim>\<open>execvp\<close> is called with the given file name and argument list, on
  the process state in which \<^verbatim>\<open>environ\<close> is \<open>envp\<close> and nothing else has changed.
  What \<^verbatim>\<open>execvpe\<close> does is what that call does: if it replaces the image,
  \<^verbatim>\<open>execvpe\<close> never returns, and the log holds the assignment and the call; if it
  returns, \<^verbatim>\<open>execvpe\<close> returns its result, with the saved value (the one of entry)
  assigned to \<^verbatim>\<open>environ\<close> in the state the call left.
\<close>

theorem execvpe_steps:
  "execvpe P file argv envp w =
     (let old_environ = environ (ps w);
          installed = (ps w)\<lparr>environ := envp\<rparr>;
          steps = trace w @ [Assign_environ envp, Call_execvp file argv (environ installed)]
      in case execvp P file argv installed of
           None \<Rightarrow> Replaced steps
         | Some (result, p) \<Rightarrow>
             Returned result \<lparr> ps = p\<lparr>environ := old_environ\<rparr>,
                                trace = steps @ [Assign_environ old_environ] \<rparr>)"
proof (cases "execvp P file argv ((ps w)\<lparr>environ := envp\<rparr>)")
  case None
  have "execvpe P file argv envp w =
          Replaced (trace w @ [Assign_environ envp, Call_execvp file argv envp])"
    by (rule execvpe_replaced [OF None])
  with None show ?thesis by (simp add: Let_def)
next
  case (Some a)
  obtain result p where a: "a = (result, p)" by (cases a)
  with Some have call: "execvp P file argv ((ps w)\<lparr>environ := envp\<rparr>) = Some (result, p)"
    by simp
  have "execvpe P file argv envp w =
          Returned result \<lparr> ps = p\<lparr>environ := environ (ps w)\<rparr>,
                             trace = trace w @ [Assign_environ envp, Call_execvp file argv envp,
                                                Assign_environ (environ (ps w))] \<rparr>"
    by (rule execvpe_returns [OF call])
  with call show ?thesis by (simp add: Let_def)
qed

theorem execvpe_steps_witness:
  "execvpe (sample_platform [''env''] 0 0 0) ''env'' 2 3 sample_world =
     Replaced [Assign_environ 3, Call_execvp ''env'' 2 3]
   \<and> state_after (execvpe (sample_platform [] 0 0 0) ''env'' 2 3 sample_world) =
       Some ((ps sample_world)\<lparr>errno := ENOENT\<rparr>)
   \<and> trace_of (execvpe (sample_platform [] 0 0 0) ''env'' 2 3 sample_world) =
       [Assign_environ 3, Call_execvp ''env'' 2 3, Assign_environ 1]"
  using execvpe_steps [of "sample_platform [''env''] 0 0 0" "''env''" 2 3 sample_world]
        execvpe_steps [of "sample_platform [] 0 0 0" "''env''" 2 3 sample_world]
  by (simp add: sample_platform_def sample_world_def Let_def)

text \<open>
  C3. When \<^verbatim>\<open>execvp\<close> succeeds, \<^verbatim>\<open>execvpe\<close> never returns and the call of
  \<^verbatim>\<open>execvp\<close> is the last step: nothing after it runs, the restoring assignment
  included. When \<^verbatim>\<open>execvp\<close> fails, \<^verbatim>\<open>execvpe\<close> returns and the restoring assignment
  is the one step after the call. So the restoration happens exactly when
  \<^verbatim>\<open>execvp\<close> failed.
\<close>

theorem execvpe_restores_only_on_failure:
  "(case execvp P file argv ((ps w)\<lparr>environ := envp\<rparr>) of
      None \<Rightarrow>
        execvpe P file argv envp w =
          Replaced (trace w @ [Assign_environ envp, Call_execvp file argv envp])
    | Some (r, p) \<Rightarrow>
        execvpe P file argv envp w =
          Returned r \<lparr> ps = p\<lparr>environ := environ (ps w)\<rparr>,
                       trace = trace w @ [Assign_environ envp, Call_execvp file argv envp,
                                          Assign_environ (environ (ps w))] \<rparr>)"
proof (cases "execvp P file argv ((ps w)\<lparr>environ := envp\<rparr>)")
  case None
  with execvpe_replaced [OF None] show ?thesis by simp
next
  case (Some a)
  obtain r p where a: "a = (r, p)" by (cases a)
  with Some have "execvp P file argv ((ps w)\<lparr>environ := envp\<rparr>) = Some (r, p)" by simp
  from execvpe_returns [OF this] Some a show ?thesis by simp
qed

theorem execvpe_restores_only_on_failure_witness:
  "execvpe (sample_platform [''env''] 0 0 0) ''env'' 2 3 sample_world =
     Replaced [Assign_environ 3, Call_execvp ''env'' 2 3]
   \<and> execvpe (sample_platform [''env''] 0 0 0) ''nosuch'' 2 3 sample_world =
       Returned (- 1) \<lparr> ps = (ps sample_world)\<lparr>errno := ENOENT\<rparr>,
                         trace = [Assign_environ 3, Call_execvp ''nosuch'' 2 3,
                                  Assign_environ 1] \<rparr>"
  using execvpe_restores_only_on_failure
          [of "sample_platform [''env''] 0 0 0" "''env''" 2 3 sample_world]
        execvpe_restores_only_on_failure
          [of "sample_platform [''env''] 0 0 0" "''nosuch''" 2 3 sample_world]
  by (simp add: sample_platform_def sample_world_def)

text \<open>
  C4. Two calls of \<^verbatim>\<open>execvpe\<close> in a row that both fail (both return) leave
  \<^verbatim>\<open>environ\<close> with the value it had before the first.
\<close>

theorem execvpe_twice_failing:
  assumes "execvpe P f1 a1 e1 w = Returned r1 w1"
    and "execvpe P f2 a2 e2 w1 = Returned r2 w2"
  shows "environ (ps w2) = environ (ps w)"
  using assms by (simp add: execvpe_Returned_environ)

theorem execvpe_twice_failing_witness:
  "execvpe (sample_platform [''env''] 0 0 0) ''nosuch'' 2 3 sample_world =
     Returned (- 1) \<lparr> ps = (ps sample_world)\<lparr>errno := ENOENT\<rparr>,
                       trace = [Assign_environ 3, Call_execvp ''nosuch'' 2 3,
                                Assign_environ 1] \<rparr>
   \<and> execvpe (sample_platform [''env''] 0 0 0) ''missing'' 2 3
         \<lparr> ps = (ps sample_world)\<lparr>errno := ENOENT\<rparr>,
           trace = [Assign_environ 3, Call_execvp ''nosuch'' 2 3, Assign_environ 1] \<rparr> =
     Returned (- 1) \<lparr> ps = (ps sample_world)\<lparr>errno := ENOENT\<rparr>,
                       trace = [Assign_environ 3, Call_execvp ''nosuch'' 2 3,
                                Assign_environ 1, Assign_environ 3,
                                Call_execvp ''missing'' 2 3, Assign_environ 1] \<rparr>
   \<and> environ ((ps sample_world)\<lparr>errno := ENOENT\<rparr>) = environ (ps sample_world)"
proof -
  let ?P = "sample_platform [''env''] 0 0 0"
  let ?w1 = "\<lparr> ps = (ps sample_world)\<lparr>errno := ENOENT\<rparr>,
               trace = [Assign_environ 3, Call_execvp ''nosuch'' 2 3, Assign_environ 1] \<rparr>"
  let ?w2 = "\<lparr> ps = (ps sample_world)\<lparr>errno := ENOENT\<rparr>,
               trace = [Assign_environ 3, Call_execvp ''nosuch'' 2 3, Assign_environ 1,
                        Assign_environ 3, Call_execvp ''missing'' 2 3, Assign_environ 1] \<rparr>"
  have h1: "execvpe ?P ''nosuch'' 2 3 sample_world = Returned (- 1) ?w1"
    by (simp add: execvpe_returns [OF sample_execvp_fails] sample_world_def)
  have h2: "execvpe ?P ''missing'' 2 3 ?w1 = Returned (- 1) ?w2"
    by (simp add: execvpe_returns [OF sample_execvp_fails] sample_world_def)
  from execvpe_twice_failing [OF h1 h2] h1 h2 show ?thesis by simp
qed

text \<open>
  C8. \<^verbatim>\<open>execvpe\<close> returns a value exactly when the underlying \<^verbatim>\<open>execvp\<close>, called
  with \<open>envp\<close> installed, returns that value: the result is handed on as it is.
  (That the value is -1 is the platform's contract for \<^verbatim>\<open>execvp\<close>.)
\<close>

theorem execvpe_result_is_execvp_result:
  "(\<exists>w'. execvpe P file argv envp w = Returned r w') \<longleftrightarrow>
   (\<exists>p. execvp P file argv ((ps w)\<lparr>environ := envp\<rparr>) = Some (r, p))"
proof (cases "execvp P file argv ((ps w)\<lparr>environ := envp\<rparr>)")
  case None
  from execvpe_replaced [OF None] None show ?thesis by simp
next
  case (Some a)
  obtain r0 p where "a = (r0, p)" by (cases a)
  with Some have e: "execvp P file argv ((ps w)\<lparr>environ := envp\<rparr>) = Some (r0, p)" by simp
  from execvpe_returns [OF e] e show ?thesis by auto
qed

text \<open>
  C10, as stated, fails: a failing call changes more than \<^verbatim>\<open>environ\<close>. On the
  sample platform the failed \<^verbatim>\<open>execvp\<close> sets \<^verbatim>\<open>errno\<close> to \<^verbatim>\<open>ENOENT\<close>, and the caller
  finds \<^verbatim>\<open>errno\<close> changed after \<^verbatim>\<open>execvpe\<close> has returned (this is what \<^verbatim>\<open>main\<close> relies
  on when it calls \<^verbatim>\<open>perror\<close> next).
\<close>

theorem execvpe_changes_errno_counterexample:
  "state_after (execvpe (sample_platform [''env''] 0 0 0) ''nosuch'' 2 3 sample_world)
     = Some ((ps sample_world)\<lparr>errno := ENOENT\<rparr>)
   \<and> errno (ps sample_world) = 0 \<and> ENOENT = 2"
  by (simp add: execvpe_returns [OF sample_execvp_fails] sample_world_def ENOENT_def)

text \<open>
  C10, amended. \<^verbatim>\<open>execvpe\<close> itself writes nothing but \<^verbatim>\<open>environ\<close>: after a failing
  call the process state is the state the underlying \<^verbatim>\<open>execvp\<close> left, with
  \<^verbatim>\<open>environ\<close> set back to its value before the call, and \<^verbatim>\<open>environ\<close> was changed only
  in between (assigned \<open>envp\<close> before the call and the saved value after it). So
  where the failed \<^verbatim>\<open>execvp\<close> changes nothing but \<^verbatim>\<open>errno\<close>, the whole state after
  the call, the arrays \<open>argv\<close> and \<open>envp\<close> included, is the state before the call
  up to \<^verbatim>\<open>errno\<close>.
\<close>

theorem execvpe_frame:
  assumes "execvp P file argv ((ps w)\<lparr>environ := envp\<rparr>) = Some (r, p)"
  shows "\<exists>w'. execvpe P file argv envp w = Returned r w'
            \<and> ps w' = p\<lparr>environ := environ (ps w)\<rparr>
            \<and> trace w' = trace w @ [Assign_environ envp, Call_execvp file argv envp,
                                    Assign_environ (environ (ps w))]
            \<and> (p = (ps w)\<lparr>environ := envp, errno := errno p\<rparr> \<longrightarrow>
                 ps w' = (ps w)\<lparr>errno := errno p\<rparr> \<and> mem (ps w') = mem (ps w))"
proof -
  let ?w' = "\<lparr> ps = p\<lparr>environ := environ (ps w)\<rparr>,
               trace = trace w @ [Assign_environ envp, Call_execvp file argv envp,
                                  Assign_environ (environ (ps w))] \<rparr>"
  have run: "execvpe P file argv envp w = Returned r ?w'"
    by (rule execvpe_returns [OF assms])
  have frame: "ps ?w' = (ps w)\<lparr>errno := errno p\<rparr> \<and> mem (ps ?w') = mem (ps w)"
    if "p = (ps w)\<lparr>environ := envp, errno := errno p\<rparr>"
  proof -
    have "p\<lparr>environ := environ (ps w)\<rparr> =
            ((ps w)\<lparr>environ := envp, errno := errno p\<rparr>)\<lparr>environ := environ (ps w)\<rparr>"
      using that by simp
    then have eq: "p\<lparr>environ := environ (ps w)\<rparr> = (ps w)\<lparr>errno := errno p\<rparr>"
      by simp
    then show ?thesis by simp
  qed
  from run frame show ?thesis by simp
qed

theorem execvpe_frame_witness:
  "execvp (sample_platform [''env''] 0 0 0) ''nosuch'' 2 ((ps sample_world)\<lparr>environ := 3\<rparr>)
     = Some (- 1, (ps sample_world)\<lparr>environ := 3, errno := ENOENT\<rparr>)
   \<and> (\<exists>w'. execvpe (sample_platform [''env''] 0 0 0) ''nosuch'' 2 3 sample_world
             = Returned (- 1) w'
          \<and> ps w' = (ps sample_world)\<lparr>errno := ENOENT\<rparr>
          \<and> mem (ps w') = mem (ps sample_world)
          \<and> trace w' = [Assign_environ 3, Call_execvp ''nosuch'' 2 3, Assign_environ 1])"
proof -
  have h: "execvp (sample_platform [''env''] 0 0 0) ''nosuch'' 2 ((ps sample_world)\<lparr>environ := 3\<rparr>)
             = Some (- 1, (ps sample_world)\<lparr>environ := 3, errno := ENOENT\<rparr>)"
    by (simp add: sample_platform_def)
  have e: "environ (ps sample_world) = 1" "trace sample_world = []"
    by (simp_all add: sample_world_def)
  from execvpe_frame [OF h] e obtain w' where
    "execvpe (sample_platform [''env''] 0 0 0) ''nosuch'' 2 3 sample_world = Returned (- 1) w'"
    and "ps w' = (ps sample_world)\<lparr>errno := ENOENT\<rparr>"
    and "mem (ps w') = mem (ps sample_world)"
    and "trace w' = [Assign_environ 3, Call_execvp ''nosuch'' 2 3, Assign_environ 1]"
    by auto
  with h show ?thesis by blast
qed

section \<open>The driver \<^verbatim>\<open>main\<close>\<close>

text \<open>
  The path \<^verbatim>\<open>main\<close> takes is decided by three results: what \<^verbatim>\<open>fork\<close> returns, in
  the child whether \<^verbatim>\<open>execvpe\<close> returns, and in the parent what \<^verbatim>\<open>wait\<close> returns.
  The lemmas below follow each path; \<open>w3\<close> is the state before \<^verbatim>\<open>fork\<close>, \<open>w4\<close> the
  state after it, \<open>w5\<close> the state after \<^verbatim>\<open>execvpe\<close> or \<^verbatim>\<open>wait\<close>.
\<close>

lemma main_locals_trace:
  "main_locals P w0 = (args, new_envp, w3) \<Longrightarrow> trace w3 = trace w0"
  by (auto simp: main_locals_def new_array_def printf_def Let_def)

lemma call_fork_trace:
  "call_fork P w3 = (pid, w4) \<Longrightarrow> trace w4 = trace w3 @ [Call_fork]"
  by (auto simp: call_fork_def log_def Let_def split: prod.splits)

lemma call_wait_trace:
  "call_wait P w4 = (r, status, w5) \<Longrightarrow> trace w5 = trace w4 @ [Call_wait]"
  by (auto simp: call_wait_def log_def Let_def split: prod.splits)

lemma main_fork_fails:
  assumes "main_locals P w0 = (args, new_envp, w3)" and "call_fork P w3 = (- 1, w4)"
  shows "main P w0 = Returned 1 (perror P ''Failed to fork'' w4)"
  using assms by (simp add: main_def)

lemma main_child_returns:
  assumes "main_locals P w0 = (args, new_envp, w3)" and "call_fork P w3 = (0, w4)"
    and "execvpe P ''env'' args new_envp w4 = Returned r w5"
  shows "main P w0 = Returned 1 (perror P ''Failed to execute execvpe'' w5)"
  using assms by (simp add: main_def)

lemma main_child_replaced:
  assumes "main_locals P w0 = (args, new_envp, w3)" and "call_fork P w3 = (0, w4)"
    and "execvpe P ''env'' args new_envp w4 = Replaced tr"
  shows "main P w0 = Replaced tr"
  using assms by (simp add: main_def)

lemma main_wait_fails:
  assumes "main_locals P w0 = (args, new_envp, w3)" and "call_fork P w3 = (pid, w4)"
    and "pid \<noteq> - 1" and "pid \<noteq> 0" and "call_wait P w4 = (- 1, status, w5)"
  shows "main P w0 = Returned 1 (perror P ''Failed to wait for the child process'' w5)"
  using assms by (simp add: main_def)

lemma main_child_exited:
  assumes "main_locals P w0 = (args, new_envp, w3)" and "call_fork P w3 = (pid, w4)"
    and "pid \<noteq> - 1" and "pid \<noteq> 0" and "call_wait P w4 = (wait_result, status, w5)"
    and "wait_result \<noteq> - 1" and "WIFEXITED P status"
  shows "main P w0 = Returned 0 (printf (newline @ ''Child process exited with code ''
                                  @ show_int (sint (WEXITSTATUS P status)) @ newline) w5)"
  using assms by (simp add: main_def)

lemma main_child_abnormal:
  assumes "main_locals P w0 = (args, new_envp, w3)" and "call_fork P w3 = (pid, w4)"
    and "pid \<noteq> - 1" and "pid \<noteq> 0" and "call_wait P w4 = (wait_result, status, w5)"
    and "wait_result \<noteq> - 1" and "\<not> WIFEXITED P status"
  shows "main P w0 = Returned 0 (printf (newline @ ''Child process exited with error''
                                  @ newline) w5)"
  using assms by (simp add: main_def)

text \<open>
  C5. The exit code of \<^verbatim>\<open>main\<close> is a function of the three results: 1 when
  \<^verbatim>\<open>fork\<close> fails; in the child, 1 when the exec attempt fails (and no exit code at
  all when it succeeds, since \<^verbatim>\<open>main\<close> never returns then); in the parent, 1 when
  \<^verbatim>\<open>wait\<close> fails and 0 otherwise, whether the child exited normally or not. No other
  exit code occurs.
\<close>

theorem main_exit_code:
  assumes "main_locals P w0 = (args, new_envp, w3)"
    and "call_fork P w3 = (pid, w4)"
    and "call_wait P w4 = (wait_result, status, w5)"
  shows "map_option fst (returned (main P w0)) =
           (if pid = - 1 then Some 1
            else if pid = 0 then
              (case execvp P ''env'' args ((ps w4)\<lparr>environ := new_envp\<rparr>) of
                 None \<Rightarrow> None
               | Some rp \<Rightarrow> Some 1)
            else if wait_result = - 1 then Some 1
            else Some 0)"
proof -
  consider (fork_failed) "pid = - 1"
    | (child) "pid = 0"
    | (wait_failed) "pid \<noteq> - 1" "pid \<noteq> 0" "wait_result = - 1"
    | (waited) "pid \<noteq> - 1" "pid \<noteq> 0" "wait_result \<noteq> - 1"
    by blast
  then show ?thesis
  proof cases
    case fork_failed
    with assms main_fork_fails [of P w0 args new_envp w3 w4] show ?thesis by simp
  next
    case child
    show ?thesis
    proof (cases "execvp P ''env'' args ((ps w4)\<lparr>environ := new_envp\<rparr>)")
      case None
      from execvpe_replaced [OF None] assms child
        main_child_replaced [of P w0 args new_envp w3 w4]
      show ?thesis using None by simp
    next
      case (Some rp)
      obtain r p where "rp = (r, p)" by (cases rp)
      with Some have e: "execvp P ''env'' args ((ps w4)\<lparr>environ := new_envp\<rparr>) = Some (r, p)"
        by simp
      from execvpe_returns [OF e] assms child
        main_child_returns [of P w0 args new_envp w3 w4]
      show ?thesis using Some by simp
    qed
  next
    case wait_failed
    with assms main_wait_fails [of P w0 args new_envp w3 pid w4 status w5]
    show ?thesis by simp
  next
    case waited
    show ?thesis
    proof (cases "WIFEXITED P status")
      case True
      with waited assms main_child_exited [of P w0 args new_envp w3 pid w4 wait_result status w5]
      show ?thesis by simp
    next
      case False
      with waited assms main_child_abnormal [of P w0 args new_envp w3 pid w4 wait_result status w5]
      show ?thesis by simp
    qed
  qed
qed

text \<open>The sample runs of \<^verbatim>\<open>main\<close>.\<close>

lemma sample_locals:
  "main_locals (sample_platform progs pid wres st) sample_world = (4, 5, sample_world3)"
  by (simp add: main_locals_def new_array_def printf_def sample_platform_def
      sample_world_def sample_world3_def Let_def)

lemma sample_fork:
  "call_fork (sample_platform progs pid wres st) w =
     (pid, w\<lparr>ps := (if pid = - 1 then (ps w)\<lparr>errno := EAGAIN\<rparr> else ps w),
              trace := trace w @ [Call_fork]\<rparr>)"
  by (simp add: call_fork_def log_def sample_platform_def Let_def)

lemma sample_wait:
  "call_wait (sample_platform progs pid wres st) w =
     (wres, st, w\<lparr>ps := (if wres = - 1 then (ps w)\<lparr>errno := ECHILD\<rparr> else ps w),
                  trace := trace w @ [Call_wait]\<rparr>)"
  by (simp add: call_wait_def log_def sample_platform_def Let_def)

lemma sample_macros:
  "WIFEXITED (sample_platform progs pid wres st) s = (s AND 0x7f = 0)"
  "WEXITSTATUS (sample_platform progs pid wres st) s = drop_bit 8 (s AND 0xff00)"
  by (simp_all add: sample_platform_def)

lemma sample_perror_text:
  "perror_text (sample_platform progs pid wres st) s ENOENT =
     s @ '': No such file or directory'' @ newline"
  "perror_text (sample_platform progs pid wres st) s ECHILD =
     s @ '': No child processes'' @ newline"
  "perror_text (sample_platform progs pid wres st) s EAGAIN =
     s @ '': Resource temporarily unavailable'' @ newline"
  by (simp_all add: perror_text_def sample_platform_def ENOENT_def ECHILD_def EAGAIN_def)

lemma show_int_42: "show_int 42 = ''42''"
  by code_simp

theorem main_exit_code_witness:
  "map_option fst (returned (main (sample_platform [] (- 1) 7 0x100) sample_world)) = Some 1
   \<and> map_option fst (returned (main (sample_platform [] 0 7 0x100) sample_world)) = Some 1
   \<and> map_option fst (returned (main (sample_platform [''env''] 0 7 0x100) sample_world)) = None
   \<and> map_option fst (returned (main (sample_platform [] 7 (- 1) 0x100) sample_world)) = Some 1
   \<and> map_option fst (returned (main (sample_platform [] 7 7 0x100) sample_world)) = Some 0
   \<and> map_option fst (returned (main (sample_platform [] 7 7 9) sample_world)) = Some 0"
  using main_exit_code [OF sample_locals sample_fork sample_wait, of "[]" "- 1" 7 "0x100"]
    main_exit_code [OF sample_locals sample_fork sample_wait, of "[]" 0 7 "0x100"]
    main_exit_code [OF sample_locals sample_fork sample_wait, of "[''env'']" 0 7 "0x100"]
    main_exit_code [OF sample_locals sample_fork sample_wait, of "[]" 7 "- 1" "0x100"]
    main_exit_code [OF sample_locals sample_fork sample_wait, of "[]" 7 7 "0x100"]
    main_exit_code [OF sample_locals sample_fork sample_wait, of "[]" 7 7 9]
  by (simp add: sample_platform_def)

text \<open>
  C6. Each of the three errors ends the process that meets it. When \<^verbatim>\<open>fork\<close>
  fails, when \<^verbatim>\<open>execvpe\<close> returns in the child, and when \<^verbatim>\<open>wait\<close> fails in the
  parent, \<^verbatim>\<open>main\<close> returns 1, and the final state is the state right after the
  failing call with one change: the message of \<^verbatim>\<open>perror\<close> (the fixed text, a colon,
  the platform's text for \<^verbatim>\<open>errno\<close>) is appended to standard error. The failing
  call is the last event of the log and occurs once: nothing is tried again.
\<close>

theorem main_errors_are_terminal:
  assumes "main_locals P w0 = (args, new_envp, w3)" and "call_fork P w3 = (pid, w4)"
  shows "(pid = - 1 \<longrightarrow>
            main P w0 =
              Returned 1 (w4\<lparr>ps := (ps w4)\<lparr>stderr := stderr (ps w4) @
                            perror_text P ''Failed to fork'' (errno (ps w4))\<rparr>\<rparr>)
            \<and> trace w4 = trace w0 @ [Call_fork])
       \<and> (pid = 0 \<longrightarrow>
            (\<forall>r w5. execvpe P ''env'' args new_envp w4 = Returned r w5 \<longrightarrow>
               main P w0 =
                 Returned 1 (w5\<lparr>ps := (ps w5)\<lparr>stderr := stderr (ps w5) @
                               perror_text P ''Failed to execute execvpe'' (errno (ps w5))\<rparr>\<rparr>)
               \<and> trace w5 = trace w0 @ [Call_fork, Assign_environ new_envp,
                                        Call_execvp ''env'' args new_envp,
                                        Assign_environ (environ (ps w4))]))
       \<and> (pid \<noteq> - 1 \<and> pid \<noteq> 0 \<longrightarrow>
            (\<forall>status w5. call_wait P w4 = (- 1, status, w5) \<longrightarrow>
               main P w0 =
                 Returned 1 (w5\<lparr>ps := (ps w5)\<lparr>stderr := stderr (ps w5) @
                               perror_text P ''Failed to wait for the child process''
                                 (errno (ps w5))\<rparr>\<rparr>)
               \<and> trace w5 = trace w0 @ [Call_fork, Call_wait]))"
proof (intro conjI impI allI)
  assume "pid = - 1"
  with assms show "main P w0 =
      Returned 1 (w4\<lparr>ps := (ps w4)\<lparr>stderr := stderr (ps w4) @
                    perror_text P ''Failed to fork'' (errno (ps w4))\<rparr>\<rparr>)"
    by (simp add: main_fork_fails perror_def)
next
  from assms show "trace w4 = trace w0 @ [Call_fork]"
    by (simp add: main_locals_trace call_fork_trace)
next
  fix r w5
  assume "pid = 0" and "execvpe P ''env'' args new_envp w4 = Returned r w5"
  with assms show "main P w0 =
      Returned 1 (w5\<lparr>ps := (ps w5)\<lparr>stderr := stderr (ps w5) @
                    perror_text P ''Failed to execute execvpe'' (errno (ps w5))\<rparr>\<rparr>)"
    by (simp add: main_child_returns perror_def)
next
  fix r w5
  assume "execvpe P ''env'' args new_envp w4 = Returned r w5"
  from execvpe_Returned_trace [OF this] assms
  show "trace w5 = trace w0 @ [Call_fork, Assign_environ new_envp,
                               Call_execvp ''env'' args new_envp,
                               Assign_environ (environ (ps w4))]"
    by (simp add: main_locals_trace call_fork_trace)
next
  fix status w5
  assume "pid \<noteq> - 1 \<and> pid \<noteq> 0" and "call_wait P w4 = (- 1, status, w5)"
  with assms main_wait_fails [of P w0 args new_envp w3 pid w4 status w5]
  show "main P w0 =
      Returned 1 (w5\<lparr>ps := (ps w5)\<lparr>stderr := stderr (ps w5) @
                    perror_text P ''Failed to wait for the child process''
                      (errno (ps w5))\<rparr>\<rparr>)"
    by (simp add: perror_def)
next
  fix status w5
  assume "call_wait P w4 = (- 1, status, w5)"
  from call_wait_trace [OF this] assms
  show "trace w5 = trace w0 @ [Call_fork, Call_wait]"
    by (simp add: main_locals_trace call_fork_trace)
qed

theorem main_errors_are_terminal_witness:
  "main (sample_platform [] (- 1) 7 0) sample_world =
     Returned 1 (sample_world3
       \<lparr>ps := (ps sample_world3)
          \<lparr>errno := EAGAIN,
            stderr := ''Failed to fork: Resource temporarily unavailable'' @ newline\<rparr>,
        trace := [Call_fork]\<rparr>)
   \<and> main (sample_platform [] 0 7 0) sample_world =
     Returned 1 (sample_world3
       \<lparr>ps := (ps sample_world3)
          \<lparr>errno := ENOENT,
            stderr := ''Failed to execute execvpe: No such file or directory'' @ newline\<rparr>,
        trace := [Call_fork, Assign_environ 5, Call_execvp ''env'' 4 5, Assign_environ 1]\<rparr>)
   \<and> main (sample_platform [] 7 (- 1) 0) sample_world =
     Returned 1 (sample_world3
       \<lparr>ps := (ps sample_world3)
          \<lparr>errno := ECHILD,
            stderr := ''Failed to wait for the child process: No child processes'' @ newline\<rparr>,
        trace := [Call_fork, Call_wait]\<rparr>)"
proof (intro conjI)
  let ?P = "sample_platform [] (- 1) 7 0"
  have f: "call_fork ?P sample_world3 =
             (- 1, sample_world3\<lparr>ps := (ps sample_world3)\<lparr>errno := EAGAIN\<rparr>,
                                  trace := [Call_fork]\<rparr>)"
    by (simp add: sample_fork sample_world3_def)
  from main_errors_are_terminal [OF sample_locals f]
  show "main (sample_platform [] (- 1) 7 0) sample_world =
     Returned 1 (sample_world3
       \<lparr>ps := (ps sample_world3)
          \<lparr>errno := EAGAIN,
            stderr := ''Failed to fork: Resource temporarily unavailable'' @ newline\<rparr>,
        trace := [Call_fork]\<rparr>)"
    by (simp add: sample_perror_text sample_world3_def)
next
  let ?P = "sample_platform [] 0 7 0"
  let ?w4 = "sample_world3\<lparr>trace := [Call_fork]\<rparr>"
  let ?w5 = "sample_world3
       \<lparr>ps := (ps sample_world3)\<lparr>errno := ENOENT\<rparr>,
        trace := [Call_fork, Assign_environ 5, Call_execvp ''env'' 4 5, Assign_environ 1]\<rparr>"
  have f: "call_fork ?P sample_world3 = (0, ?w4)"
    by (simp add: sample_fork sample_world3_def)
  have x: "execvpe ?P ''env'' 4 5 ?w4 = Returned (- 1) ?w5"
    by (simp add: execvpe_returns [OF sample_execvp_fails] sample_world3_def)
  from main_errors_are_terminal [OF sample_locals f] x
  show "main ?P sample_world = Returned 1 (sample_world3
       \<lparr>ps := (ps sample_world3)
          \<lparr>errno := ENOENT,
            stderr := ''Failed to execute execvpe: No such file or directory'' @ newline\<rparr>,
        trace := [Call_fork, Assign_environ 5, Call_execvp ''env'' 4 5, Assign_environ 1]\<rparr>)"
    by (simp add: sample_perror_text sample_world3_def)
next
  let ?P = "sample_platform [] 7 (- 1) 0"
  let ?w4 = "sample_world3\<lparr>trace := [Call_fork]\<rparr>"
  let ?w5 = "sample_world3
       \<lparr>ps := (ps sample_world3)\<lparr>errno := ECHILD\<rparr>, trace := [Call_fork, Call_wait]\<rparr>"
  have f: "call_fork ?P sample_world3 = (7, ?w4)"
    by (simp add: sample_fork sample_world3_def)
  have x: "call_wait ?P ?w4 = (- 1, 0, ?w5)"
    by (simp add: sample_wait sample_world3_def)
  from main_errors_are_terminal [OF sample_locals f] x
  show "main ?P sample_world = Returned 1 (sample_world3
       \<lparr>ps := (ps sample_world3)
          \<lparr>errno := ECHILD,
            stderr := ''Failed to wait for the child process: No child processes'' @ newline\<rparr>,
        trace := [Call_fork, Call_wait]\<rparr>)"
    by (simp add: sample_perror_text sample_world3_def)
qed

text \<open>
  C7. In the parent (\<^verbatim>\<open>fork\<close> returned neither -1 nor 0), \<^verbatim>\<open>main\<close> calls \<^verbatim>\<open>wait\<close>
  once, right after \<^verbatim>\<open>fork\<close>, and when \<^verbatim>\<open>wait\<close> has returned a status it reports
  from that status alone: if \<^verbatim>\<open>WIFEXITED\<close> holds, the line with the child's exit
  code \<^verbatim>\<open>WEXITSTATUS\<close> in decimal goes to standard output, and otherwise the line
  that tells of an abnormal end. (That \<^verbatim>\<open>wait\<close> blocks until the child has
  terminated is the platform's contract for \<^verbatim>\<open>wait\<close>.)
\<close>

theorem main_parent_reports_child:
  assumes "main_locals P w0 = (args, new_envp, w3)" and "call_fork P w3 = (pid, w4)"
    and "pid \<noteq> - 1" and "pid \<noteq> 0"
    and "call_wait P w4 = (wait_result, status, w5)" and "wait_result \<noteq> - 1"
  shows "main P w0 =
           Returned 0 (w5\<lparr>ps := (ps w5)\<lparr>stdout := stdout (ps w5) @
              (if WIFEXITED P status
               then newline @ ''Child process exited with code ''
                    @ show_int (sint (WEXITSTATUS P status)) @ newline
               else newline @ ''Child process exited with error'' @ newline)\<rparr>\<rparr>)
         \<and> trace w5 = trace w0 @ [Call_fork, Call_wait]"
proof
  show "main P w0 =
           Returned 0 (w5\<lparr>ps := (ps w5)\<lparr>stdout := stdout (ps w5) @
              (if WIFEXITED P status
               then newline @ ''Child process exited with code ''
                    @ show_int (sint (WEXITSTATUS P status)) @ newline
               else newline @ ''Child process exited with error'' @ newline)\<rparr>\<rparr>)"
  proof (cases "WIFEXITED P status")
    case True
    with main_child_exited [OF assms] show ?thesis by (simp add: printf_def)
  next
    case False
    with main_child_abnormal [OF assms] show ?thesis by (simp add: printf_def)
  qed
next
  from assms show "trace w5 = trace w0 @ [Call_fork, Call_wait]"
    by (simp add: main_locals_trace call_fork_trace call_wait_trace)
qed

theorem main_parent_reports_child_witness:
  "call_fork (sample_platform [] 7 7 0x2a00) sample_world3 =
     (7, sample_world3\<lparr>trace := [Call_fork]\<rparr>)
   \<and> call_wait (sample_platform [] 7 7 0x2a00) (sample_world3\<lparr>trace := [Call_fork]\<rparr>) =
     (7, 0x2a00, sample_world3\<lparr>trace := [Call_fork, Call_wait]\<rparr>)
   \<and> main (sample_platform [] 7 7 0x2a00) sample_world =
     Returned 0 (sample_world3
       \<lparr>ps := (ps sample_world3)
          \<lparr>stdout := ''/usr/bin:/bin'' @ newline @ newline
                     @ ''Child process exited with code 42'' @ newline\<rparr>,
        trace := [Call_fork, Call_wait]\<rparr>)"
proof -
  let ?P = "sample_platform [] 7 7 0x2a00"
  let ?w4 = "sample_world3\<lparr>trace := [Call_fork]\<rparr>"
  let ?w5 = "sample_world3\<lparr>trace := [Call_fork, Call_wait]\<rparr>"
  have f: "call_fork ?P sample_world3 = (7, ?w4)"
    by (simp add: sample_fork sample_world3_def)
  have x: "call_wait ?P ?w4 = (7, 0x2a00, ?w5)"
    by (simp add: sample_wait sample_world3_def)
  have n: "(7 :: cint) \<noteq> - 1" "(7 :: cint) \<noteq> 0"
    by simp_all
  from main_parent_reports_child [OF sample_locals f n x n(1)]
  have "main ?P sample_world =
     Returned 0 (sample_world3
       \<lparr>ps := (ps sample_world3)
          \<lparr>stdout := ''/usr/bin:/bin'' @ newline @ newline
                     @ ''Child process exited with code 42'' @ newline\<rparr>,
        trace := [Call_fork, Call_wait]\<rparr>)"
    by (simp add: sample_macros show_int_42 sample_world3_def)
  with f x show ?thesis by simp
qed

text \<open>
  C9. When \<^verbatim>\<open>wait\<close> succeeds and the status says the child did not exit
  normally (\<^verbatim>\<open>WIFEXITED\<close> is false), \<^verbatim>\<open>main\<close> prints the line for an abnormal end
  on standard output, writes nothing to standard error, and returns 0.
\<close>

theorem main_abnormal_child_exits_zero:
  assumes "main_locals P w0 = (args, new_envp, w3)" and "call_fork P w3 = (pid, w4)"
    and "pid \<noteq> - 1" and "pid \<noteq> 0"
    and "call_wait P w4 = (wait_result, status, w5)" and "wait_result \<noteq> - 1"
    and "\<not> WIFEXITED P status"
  shows "\<exists>w'. main P w0 = Returned 0 w'
            \<and> stdout (ps w') =
                stdout (ps w5) @ newline @ ''Child process exited with error'' @ newline
            \<and> stderr (ps w') = stderr (ps w5)"
  using main_child_abnormal [OF assms] by (simp add: printf_def)

theorem main_abnormal_child_exits_zero_witness:
  "\<not> WIFEXITED (sample_platform [] 7 7 9) 9
   \<and> (\<exists>w'. main (sample_platform [] 7 7 9) sample_world = Returned 0 w'
          \<and> stdout (ps w') =
              ''/usr/bin:/bin'' @ newline @ newline @ ''Child process exited with error''
              @ newline
          \<and> stderr (ps w') = [])"
proof -
  let ?P = "sample_platform [] 7 7 9"
  let ?w4 = "sample_world3\<lparr>trace := [Call_fork]\<rparr>"
  let ?w5 = "sample_world3\<lparr>trace := [Call_fork, Call_wait]\<rparr>"
  have f: "call_fork ?P sample_world3 = (7, ?w4)"
    by (simp add: sample_fork sample_world3_def)
  have x: "call_wait ?P ?w4 = (7, 9, ?w5)"
    by (simp add: sample_wait sample_world3_def)
  have n: "(7 :: cint) \<noteq> - 1" "(7 :: cint) \<noteq> 0"
    by simp_all
  have s: "\<not> WIFEXITED ?P 9"
    by (simp add: sample_macros)
  from main_abnormal_child_exits_zero [OF sample_locals f n x n(1) s] s
  show ?thesis by (simp add: sample_world3_def)
qed

end
